theory Spec2Isabelle
  imports Main
begin

section \<open>Session-token authentication service (main.py)\<close>

text \<open>
  A shallow embedding of the handlers of \<^verbatim>\<open>main.py\<close>: \<^verbatim>\<open>register\<close>, \<^verbatim>\<open>login\<close>,
  \<^verbatim>\<open>signout\<close> and the dependency \<^verbatim>\<open>require_session\<close>, over the \<^verbatim>\<open>users\<close> collection.

  \<^item> The collection \<^verbatim>\<open>db["users"]\<close> is a list of documents in insertion order; every handler
    takes it and, when it writes, returns the new one.
  \<^item> Every \<^verbatim>\<open>raise\<close> of the source is an \<open>Inl\<close> result carrying the exception.
  \<^item> What the source draws from its environment is an explicit argument: the settings,
    the clock (\<^verbatim>\<open>datetime.utcnow()\<close>), the random token (\<^verbatim>\<open>uuid4().hex\<close>), the identifier
    the driver gives an inserted document, and the password-hashing context of passlib,
    which is not part of the repository.
  \<^item> Dates have the range of Python's \<^verbatim>\<open>datetime\<close>, and the store keeps them in whole
    milliseconds.
\<close>

subsection \<open>Data\<close>

text \<open>
  \<^verbatim>\<open>HTTPException(status_code, detail)\<close> is what the handlers raise. \<open>DuplicateKeyError\<close>
  is what the store raises when a unique index (\<^verbatim>\<open>_id\<close>, \<^verbatim>\<open>username\<close>) is violated, and
  \<open>UnknownHashError\<close> stands for an exception raised inside \<^verbatim>\<open>pwd_context.verify\<close>,
  \<open>PasswordSizeError\<close> for one raised inside \<^verbatim>\<open>pwd_context.hash\<close>. \<open>OverflowError\<close> is what
  Python's \<^verbatim>\<open>timedelta\<close> and \<^verbatim>\<open>datetime\<close> raise outside their ranges.
\<close>

datatype error =
    HTTPException nat string
  | DuplicateKeyError
  | UnknownHashError
  | PasswordSizeError
  | OverflowError

text \<open>
  A \<^verbatim>\<open>datetime\<close> is a count of microseconds since 1970-01-01 00:00:00, between
  \<^verbatim>\<open>datetime.min\<close> (0001-01-01 00:00:00) and \<^verbatim>\<open>datetime.max\<close> (9999-12-31 23:59:59.999999).
\<close>

type_synonym datetime = int

definition datetime_min :: datetime where
  "datetime_min = - 62135596800000000"

definition datetime_max :: datetime where
  "datetime_max = 253402300799999999"

text \<open>
  \<^verbatim>\<open>timedelta(days=n)\<close> is \<open>n\<close> days in microseconds; it raises \<^verbatim>\<open>OverflowError\<close> when the
  magnitude of \<open>n\<close> is above 999999999.
\<close>

definition timedelta_days :: "int \<Rightarrow> error + int" where
  "timedelta_days n =
     (if n < - 999999999 \<or> 999999999 < n then Inl OverflowError
      else Inr (n * 86400000000))"

text \<open>\<^verbatim>\<open>datetime + timedelta\<close> raises \<^verbatim>\<open>OverflowError\<close> when the sum is not a \<^verbatim>\<open>datetime\<close>.\<close>

definition datetime_add :: "datetime \<Rightarrow> int \<Rightarrow> error + datetime" where
  "datetime_add t delta =
     (if t + delta < datetime_min \<or> datetime_max < t + delta then Inl OverflowError
      else Inr (t + delta))"

text \<open>
  The store keeps a date as whole milliseconds: the driver drops the microseconds below
  a millisecond when it encodes a \<^verbatim>\<open>datetime\<close>.
\<close>

definition bson_date :: "datetime \<Rightarrow> datetime" where
  "bson_date t = (t div 1000) * 1000"

type_synonym objectid = nat

text \<open>
  A document of the \<^verbatim>\<open>users\<close> collection, with the keys \<^verbatim>\<open>create_user_doc\<close> writes. A key
  whose value may be \<^verbatim>\<open>None\<close> or that \<^verbatim>\<open>$unset\<close> removes is an option: \<^verbatim>\<open>doc.get(key)\<close> is
  \<^verbatim>\<open>None\<close> in both cases, and a query for a string value matches in neither.
\<close>

record user_doc =
  doc_id :: objectid
  username :: string
  hashed_password :: "string option"
  full_name :: "string option"
  disabled :: bool
  logged_in :: bool
  session_token :: "string option"
  session_expires_at :: "datetime option"
  created_at :: datetime

type_synonym collection = "user_doc list"

record Settings =
  SESSION_TOKEN_TTL_DAYS :: int

definition default_settings :: Settings where
  "default_settings = \<lparr>SESSION_TOKEN_TTL_DAYS = 30\<rparr>"

record RegisterIn =
  reg_username :: string
  reg_password :: string
  reg_full_name :: "string option"

record LoginIn =
  login_username :: string
  login_password :: string

record TokenOut =
  out_session_token :: string
  out_expires_at :: "datetime option"

text \<open>
  The request and response models. \<^verbatim>\<open>UserOut.id\<close> is \<^verbatim>\<open>str(doc["_id"])\<close>; the model keeps
  the identifier itself.
\<close>

record UserOut =
  out_id :: objectid
  out_username :: string
  out_full_name :: "string option"
  out_logged_in :: bool

subsection \<open>Password hashing\<close>

text \<open>
  \<^verbatim>\<open>pwd_context\<close> is passlib's \<^verbatim>\<open>CryptContext\<close>; the repository holds only the two calls into
  it, so the context is a parameter. \<^verbatim>\<open>hash\<close> returns a hash string or raises, \<^verbatim>\<open>verify\<close>
  returns a boolean or raises; the source has no handler around either call.
\<close>

record crypt_context =
  ctx_hash :: "string \<Rightarrow> error + string"
  ctx_verify :: "string \<Rightarrow> string \<Rightarrow> error + bool"

definition hash_password :: "crypt_context \<Rightarrow> string \<Rightarrow> error + string" where
  "hash_password pwd_context password = ctx_hash pwd_context password"

definition verify_password :: "crypt_context \<Rightarrow> string \<Rightarrow> string \<Rightarrow> error + bool" where
  "verify_password pwd_context plain hashed = ctx_verify pwd_context plain hashed"

subsection \<open>The collection\<close>

text \<open>\<^verbatim>\<open>find_one\<close> returns the first document that matches the query, if any.\<close>

definition find_one :: "(user_doc \<Rightarrow> bool) \<Rightarrow> collection \<Rightarrow> user_doc option" where
  "find_one q db = find q db"

text \<open>\<^verbatim>\<open>update_one\<close> changes the first document that matches the filter, and nothing else.\<close>

fun update_one :: "(user_doc \<Rightarrow> bool) \<Rightarrow> (user_doc \<Rightarrow> user_doc) \<Rightarrow> collection \<Rightarrow> collection" where
  "update_one q upd [] = []"
| "update_one q upd (d # ds) = (if q d then upd d # ds else d # update_one q upd ds)"

text \<open>What the store keeps of a document: its dates in whole milliseconds.\<close>

definition bson_encode :: "user_doc \<Rightarrow> user_doc" where
  "bson_encode doc =
     doc\<lparr>session_expires_at := map_option bson_date (session_expires_at doc),
         created_at := bson_date (created_at doc)\<rparr>"

text \<open>
  \<^verbatim>\<open>insert_one\<close> appends the document; the store refuses a second document with the same
  \<^verbatim>\<open>_id\<close>, or with the same \<^verbatim>\<open>username\<close> (the unique index created at startup).
\<close>

definition insert_one :: "user_doc \<Rightarrow> collection \<Rightarrow> error + collection" where
  "insert_one doc db =
     (if list_ex (\<lambda>d. doc_id d = doc_id doc) db then Inl DuplicateKeyError
      else if list_ex (\<lambda>d. username d = username doc) db then Inl DuplicateKeyError
      else Inr (db @ [bson_encode doc]))"

definition get_user_doc_by_username :: "collection \<Rightarrow> string \<Rightarrow> user_doc option" where
  "get_user_doc_by_username db uname = find_one (\<lambda>d. username d = uname) db"

definition get_user_doc_by_token :: "collection \<Rightarrow> string \<Rightarrow> user_doc option" where
  "get_user_doc_by_token db token =
     (if token = [] then None
      else find_one (\<lambda>d. session_token d = Some token) db)"

definition create_user_doc ::
  "crypt_context \<Rightarrow> datetime \<Rightarrow> objectid \<Rightarrow> RegisterIn \<Rightarrow> collection
     \<Rightarrow> (error + user_doc) \<times> collection" where
  "create_user_doc pwd_context now oid payload db =
     (case hash_password pwd_context (reg_password payload) of
        Inl e \<Rightarrow> (Inl e, db)
      | Inr hashed \<Rightarrow>
          (let doc = \<lparr>doc_id = oid,
                      username = reg_username payload,
                      hashed_password = Some hashed,
                      full_name = reg_full_name payload,
                      disabled = False,
                      logged_in = False,
                      session_token = None,
                      session_expires_at = None,
                      created_at = now\<rparr>
           in case insert_one doc db of
                Inl e \<Rightarrow> (Inl e, db)
              | Inr db' \<Rightarrow> (Inr (doc\<lparr>hashed_password := None\<rparr>), db')))"

subsection \<open>Handlers\<close>

definition make_session_token :: "string \<Rightarrow> string" where
  "make_session_token uuid4_hex = uuid4_hex"

definition register ::
  "crypt_context \<Rightarrow> datetime \<Rightarrow> objectid \<Rightarrow> RegisterIn \<Rightarrow> collection
     \<Rightarrow> (error + UserOut) \<times> collection" where
  "register pwd_context now oid user db =
     (case get_user_doc_by_username db (reg_username user) of
        Some existing \<Rightarrow> (Inl (HTTPException 400 ''Username already exists''), db)
      | None \<Rightarrow>
          (case create_user_doc pwd_context now oid user db of
             (Inl e, db') \<Rightarrow> (Inl e, db')
           | (Inr doc, db') \<Rightarrow>
               (Inr \<lparr>out_id = doc_id doc,
                     out_username = username doc,
                     out_full_name = full_name doc,
                     out_logged_in = logged_in doc\<rparr>, db')))"

definition login ::
  "crypt_context \<Rightarrow> Settings \<Rightarrow> datetime \<Rightarrow> string \<Rightarrow> LoginIn \<Rightarrow> collection
     \<Rightarrow> (error + TokenOut) \<times> collection" where
  "login pwd_context settings now uuid4_hex body db =
     (case get_user_doc_by_username db (login_username body) of
        None \<Rightarrow> (Inl (HTTPException 401 ''Incorrect username or password''), db)
      | Some user_doc \<Rightarrow>
          (case hashed_password user_doc of
             None \<Rightarrow> (Inl (HTTPException 401 ''Incorrect username or password''), db)
           | Some hashed \<Rightarrow>
               if hashed = [] then (Inl (HTTPException 401 ''Incorrect username or password''), db)
               else
                 (case verify_password pwd_context (login_password body) hashed of
                    Inl e \<Rightarrow> (Inl e, db)
                  | Inr ok \<Rightarrow>
                      if \<not> ok then (Inl (HTTPException 401 ''Incorrect username or password''), db)
                      else if disabled user_doc then (Inl (HTTPException 403 ''User disabled''), db)
                      else
                        (let token = make_session_token uuid4_hex
                         in case timedelta_days (SESSION_TOKEN_TTL_DAYS settings) of
                              Inl e \<Rightarrow> (Inl e, db)
                            | Inr delta \<Rightarrow>
                                (case datetime_add now delta of
                                   Inl e \<Rightarrow> (Inl e, db)
                                 | Inr expires_at \<Rightarrow>
                                     (Inr \<lparr>out_session_token = token,
                                           out_expires_at = Some expires_at\<rparr>,
                                      update_one (\<lambda>d. doc_id d = doc_id user_doc)
                                        (\<lambda>d. d\<lparr>logged_in := True,
                                                session_token := Some token,
                                                session_expires_at :=
                                                  Some (bson_date expires_at)\<rparr>) db))))))"

text \<open>
  \<^verbatim>\<open>authorization.partition(" ")\<close>: the text before the first space, the separator, and the
  text after it; without a space, the whole string and two empty strings.
\<close>

definition partition_str :: "string \<Rightarrow> string \<times> string \<times> string" where
  "partition_str s =
     (case dropWhile (\<lambda>c. c \<noteq> CHR '' '') s of
        [] \<Rightarrow> (s, [], [])
      | sep # after \<Rightarrow> (takeWhile (\<lambda>c. c \<noteq> CHR '' '') s, [sep], after))"

text \<open>
  \<^verbatim>\<open>str.lower()\<close> on a header value. The server decodes header bytes as Latin-1, so a
  character is a code point below 256: the upper-case letters are \<open>A\<close> to \<open>Z\<close> and the
  code points 192 to 222 without the multiplication sign 215, each 32 below its lower case.
\<close>

definition lower_char :: "char \<Rightarrow> char" where
  "lower_char c =
     (let n = (of_char c :: nat)
      in if (65 \<le> n \<and> n \<le> 90) \<or> (192 \<le> n \<and> n \<le> 222 \<and> n \<noteq> 215)
         then char_of (n + 32) else c)"

definition str_lower :: "string \<Rightarrow> string" where
  "str_lower s = map lower_char s"

definition signout :: "string option \<Rightarrow> collection \<Rightarrow> (error + string) \<times> collection" where
  "signout authorization db =
     (case authorization of
        None \<Rightarrow> (Inl (HTTPException 401 ''Missing Authorization header''), db)
      | Some a \<Rightarrow>
          if a = [] then (Inl (HTTPException 401 ''Missing Authorization header''), db)
          else
            (case partition_str a of
               (scheme, sep, token) \<Rightarrow>
                 if str_lower scheme \<noteq> ''session'' \<or> token = [] then
                   (Inl (HTTPException 401
                      ''Invalid authorization header (expected 'Session <token>')''), db)
                 else
                   (case get_user_doc_by_token db token of
                      None \<Rightarrow> (Inl (HTTPException 401 ''Invalid session token''), db)
                    | Some user_doc \<Rightarrow>
                        (Inr ''Signed out'',
                         update_one (\<lambda>d. doc_id d = doc_id user_doc)
                           (\<lambda>d. d\<lparr>logged_in := False,
                                   session_token := None,
                                   session_expires_at := None\<rparr>) db))))"

definition require_session :: "string option \<Rightarrow> collection \<Rightarrow> error + UserOut" where
  "require_session authorization db =
     (case authorization of
        None \<Rightarrow> Inl (HTTPException 401 ''Missing Authorization header'')
      | Some a \<Rightarrow>
          if a = [] then Inl (HTTPException 401 ''Missing Authorization header'')
          else
            (case partition_str a of
               (scheme, sep, token) \<Rightarrow>
                 if str_lower scheme \<noteq> ''session'' \<or> token = [] then
                   Inl (HTTPException 401 ''Invalid authorization header'')
                 else
                   (case get_user_doc_by_token db token of
                      None \<Rightarrow> Inl (HTTPException 401 ''Invalid session token'')
                    | Some user_doc \<Rightarrow>
                        if \<not> logged_in user_doc then
                          Inl (HTTPException 401 ''Session not active (user not logged in)'')
                        else if disabled user_doc then Inl (HTTPException 403 ''User disabled'')
                        else Inr \<lparr>out_id = doc_id user_doc,
                                  out_username = username user_doc,
                                  out_full_name = full_name user_doc,
                                  out_logged_in = True\<rparr>)))"

definition protected_route :: "string option \<Rightarrow> collection \<Rightarrow> error + string" where
  "protected_route authorization db =
     (case require_session authorization db of
        Inl e \<Rightarrow> Inl e
      | Inr current_user \<Rightarrow> Inr (''Hello '' @ out_username current_user @ '', you are signed in.''))"

subsection \<open>The error kinds of the specification\<close>

definition DuplicateUsername :: error where
  "DuplicateUsername = HTTPException 400 ''Username already exists''"

definition InvalidCredentials :: error where
  "InvalidCredentials = HTTPException 401 ''Incorrect username or password''"

definition UserDisabled :: error where
  "UserDisabled = HTTPException 403 ''User disabled''"

definition InvalidSession :: error where
  "InvalidSession = HTTPException 401 ''Invalid session token''"

definition SessionInactive :: error where
  "SessionInactive = HTTPException 401 ''Session not active (user not logged in)''"

subsection \<open>Properties of a collection\<close>

text \<open>The store keeps \<^verbatim>\<open>_id\<close> unique: no two documents share an identifier.\<close>

definition unique_ids :: "collection \<Rightarrow> bool" where
  "unique_ids db = distinct (map doc_id db)"

text \<open>The documents whose \<^verbatim>\<open>session_token\<close> is the string \<open>t\<close>.\<close>

definition token_holders :: "collection \<Rightarrow> string \<Rightarrow> user_doc list" where
  "token_holders db t = filter (\<lambda>d. session_token d = Some t) db"

text \<open>Every document holds a session token if and only if its \<^verbatim>\<open>logged_in\<close> flag is set.\<close>

definition session_invariant :: "collection \<Rightarrow> bool" where
  "session_invariant db = list_all (\<lambda>d. (session_token d \<noteq> None) = logged_in d) db"

text \<open>The keys of a document that are not part of its login state.\<close>

definition frame_fields ::
  "user_doc \<Rightarrow> objectid \<times> string \<times> string option \<times> string option \<times> bool \<times> datetime" where
  "frame_fields d =
     (doc_id d, username d, hashed_password d, full_name d, disabled d, created_at d)"

text \<open>
  The spellings of the scheme that compare equal to \<^verbatim>\<open>session\<close> when case is ignored:
  each of the seven letters in lower or in upper case.
\<close>

definition session_spelling :: "string \<Rightarrow> bool" where
  "session_spelling scheme =
     list_all2 (\<lambda>c (lo, up). c = lo \<or> c = up) scheme
       [(CHR ''s'', CHR ''S''), (CHR ''e'', CHR ''E''), (CHR ''s'', CHR ''S''),
        (CHR ''s'', CHR ''S''), (CHR ''i'', CHR ''I''), (CHR ''o'', CHR ''O''),
        (CHR ''n'', CHR ''N'')]"

subsection \<open>Concrete data\<close>

text \<open>
  A hashing context for the concrete evaluations. It is a stand-in and not passlib's
  algorithm: a hash is the identifying prefix of the \<^verbatim>\<open>bcrypt_sha256\<close> scheme followed by the
  password, \<^verbatim>\<open>hash\<close> raises on a password of more than 4096 characters, as passlib does,
  and \<^verbatim>\<open>verify\<close> raises on a string without the prefix, as \<^verbatim>\<open>CryptContext.verify\<close> raises
  on a hash that none of its schemes identifies.
\<close>

definition scheme_prefix :: string where
  "scheme_prefix = ''$bcrypt-sha256$''"

definition demo_context :: crypt_context where
  "demo_context =
     \<lparr>ctx_hash = (\<lambda>password.
         if 4096 < length password then Inl PasswordSizeError
         else Inr (scheme_prefix @ password)),
      ctx_verify = (\<lambda>plain hashed.
         if take (length scheme_prefix) hashed \<noteq> scheme_prefix then Inl UnknownHashError
         else Inr (hashed = scheme_prefix @ plain))\<rparr>"

text \<open>
  \<open>alice\<close> is logged in with the token \<^verbatim>\<open>t1\<close>; \<open>bob\<close> is registered and not logged in;
  \<open>dave\<close> logged in with the token \<^verbatim>\<open>t9\<close> and was disabled afterwards.
\<close>

definition alice :: user_doc where
  "alice = \<lparr>doc_id = 1, username = ''alice'',
            hashed_password = Some ''$bcrypt-sha256$pw123'', full_name = None,
            disabled = False, logged_in = True, session_token = Some ''t1'',
            session_expires_at = Some 2592000000000, created_at = 0\<rparr>"

definition bob :: user_doc where
  "bob = \<lparr>doc_id = 2, username = ''bob'',
          hashed_password = Some ''$bcrypt-sha256$hunter2'', full_name = Some ''Bob'',
          disabled = False, logged_in = False, session_token = None,
          session_expires_at = None, created_at = 7000\<rparr>"

definition dave :: user_doc where
  "dave = \<lparr>doc_id = 4, username = ''dave'',
           hashed_password = Some ''$bcrypt-sha256$letmein'', full_name = None,
           disabled = True, logged_in = True, session_token = Some ''t9'',
           session_expires_at = Some 5000, created_at = 1000\<rparr>"

definition demo_db :: collection where
  "demo_db = [alice, bob, dave]"

text \<open>\<open>erin\<close>'s stored hash is not a hash string of any scheme.\<close>

definition erin :: user_doc where
  "erin = \<lparr>doc_id = 5, username = ''erin'',
           hashed_password = Some ''not-a-hash'', full_name = None,
           disabled = False, logged_in = False, session_token = None,
           session_expires_at = None, created_at = 2000\<rparr>"

definition corrupt_db :: collection where
  "corrupt_db = [erin]"



section \<open>Facts about the collection\<close>

lemma find_one_Some: "find_one q db = Some u \<Longrightarrow> u \<in> set db \<and> q u"
  by (auto simp: find_one_def find_Some_iff)

lemma find_one_None: "find_one q db = None \<longleftrightarrow> (\<forall>d\<in>set db. \<not> q d)"
  by (auto simp: find_one_def find_None_iff)

lemma update_one_length: "length (update_one q upd db) = length db"
  by (induction db) auto

lemma update_one_map_frame:
  "(\<And>d. g (upd d) = g d) \<Longrightarrow> map g (update_one q upd db) = map g db"
  by (induction db) auto

lemma update_one_list_all:
  "list_all P db \<Longrightarrow> (\<And>d. P (upd d)) \<Longrightarrow> list_all P (update_one q upd db)"
  by (induction db) auto

text \<open>With unique identifiers, an update by identifier touches every match, as there is one.\<close>

lemma update_one_unique_id:
  "distinct (map doc_id db) \<Longrightarrow>
   update_one (\<lambda>d. doc_id d = i) upd db = map (\<lambda>d. if doc_id d = i then upd d else d) db"
proof (induction db)
  case Nil
  then show ?case by simp
next
  case (Cons d ds)
  show ?case
  proof (cases "doc_id d = i")
    case True
    with Cons.prems have "\<forall>e\<in>set ds. doc_id e \<noteq> i" by (auto simp: image_iff)
    then have "map (\<lambda>d. if doc_id d = i then upd d else d) ds = ds"
      by (induction ds) auto
    with True show ?thesis by simp
  next
    case False
    with Cons show ?thesis by simp
  qed
qed

lemma holder_is_unique:
  assumes "u \<in> set db" and "session_token u = Some t"
    and "length (token_holders db t) \<le> 1"
    and "d \<in> set db" and "session_token d = Some t"
  shows "d = u"
proof -
  have u: "u \<in> set (token_holders db t)"
    using assms(1,2) by (simp add: token_holders_def)
  have d: "d \<in> set (token_holders db t)"
    using assms(4,5) by (simp add: token_holders_def)
  obtain x where "token_holders db t = [x]"
    using u assms(3) by (cases "token_holders db t") auto
  with u d show ?thesis by simp
qed

lemma find_one_map:
  "(\<And>d. q (g d) = q d) \<Longrightarrow> find_one q (map g db) = map_option g (find_one q db)"
  by (induction db) (auto simp: find_one_def)

text \<open>Once the one holder of a token has another value in the field, the token finds nothing.\<close>

lemma token_gone:
  assumes ids: "unique_ids db"
    and u: "u \<in> set db" "session_token u = Some t"
    and one: "length (token_holders db t) \<le> 1"
    and upd: "\<And>d. session_token (upd d) \<noteq> Some t"
  shows "get_user_doc_by_token (update_one (\<lambda>d. doc_id d = doc_id u) upd db) t = None"
proof -
  have m: "update_one (\<lambda>d. doc_id d = doc_id u) upd db =
      map (\<lambda>d. if doc_id d = doc_id u then upd d else d) db"
    using ids by (simp add: unique_ids_def update_one_unique_id)
  have "\<forall>d\<in>set db. session_token (if doc_id d = doc_id u then upd d else d) \<noteq> Some t"
  proof
    fix d assume d: "d \<in> set db"
    show "session_token (if doc_id d = doc_id u then upd d else d) \<noteq> Some t"
    proof (cases "doc_id d = doc_id u")
      case True
      then show ?thesis using upd by simp
    next
      case False
      then have "d \<noteq> u" by auto
      then have "session_token d \<noteq> Some t"
        using holder_is_unique [OF u one d] by blast
      with False show ?thesis by simp
    qed
  qed
  then have "find_one (\<lambda>d. session_token d = Some t)
      (map (\<lambda>d. if doc_id d = doc_id u then upd d else d) db) = None"
    unfolding find_one_None by (simp only: set_map ball_simps)
  then show ?thesis by (simp add: get_user_doc_by_token_def m)
qed

lemma by_username_after_update:
  assumes ids: "unique_ids db"
    and u: "get_user_doc_by_username db uname = Some u"
    and upd: "\<And>d. username (upd d) = username d"
  shows "get_user_doc_by_username (update_one (\<lambda>d. doc_id d = doc_id u) upd db) uname
           = Some (upd u)"
proof -
  have m: "update_one (\<lambda>d. doc_id d = doc_id u) upd db =
      map (\<lambda>d. if doc_id d = doc_id u then upd d else d) db"
    using ids by (simp add: unique_ids_def update_one_unique_id)
  have "find_one (\<lambda>d. username d = uname)
      (map (\<lambda>d. if doc_id d = doc_id u then upd d else d) db)
      = map_option (\<lambda>d. if doc_id d = doc_id u then upd d else d)
          (find_one (\<lambda>d. username d = uname) db)"
    by (rule find_one_map) (simp add: upd)
  then show ?thesis
    using u by (simp add: get_user_doc_by_username_def m)
qed

lemma by_token_Some:
  "get_user_doc_by_token db t = Some u \<Longrightarrow>
   t \<noteq> [] \<and> find_one (\<lambda>d. session_token d = Some t) db = Some u"
  by (simp add: get_user_doc_by_token_def split: if_splits)

lemma by_token_map:
  "(\<And>d. session_token (g d) = session_token d) \<Longrightarrow>
   get_user_doc_by_token (map g db) t = map_option g (get_user_doc_by_token db t)"
  unfolding get_user_doc_by_token_def
  by (simp add: find_one_map)

section \<open>Facts about the credential header\<close>

lemma partition_str_split:
  assumes "CHR '' '' \<notin> set scheme"
  shows "partition_str (scheme @ CHR '' '' # tok) = (scheme, '' '', tok)"
proof -
  have d: "dropWhile (\<lambda>c. c \<noteq> CHR '' '') (scheme @ CHR '' '' # tok) = CHR '' '' # tok"
    using assms by (subst dropWhile_append2) auto
  have t: "takeWhile (\<lambda>c. c \<noteq> CHR '' '') (scheme @ CHR '' '' # tok) = scheme"
    using assms by (subst takeWhile_append2) auto
  show ?thesis by (simp add: partition_str_def d t)
qed

lemma partition_Session: "partition_str (''Session '' @ t) = (''Session'', '' '', t)"
  by (simp add: partition_str_def)

lemma str_lower_Session: "str_lower ''Session'' = ''session''"
  by (simp add: str_lower_def lower_char_def char_of_eq_iff)

lemma signout_Session:
  "signout (Some (''Session '' @ t)) db =
     (if t = [] then
        (Inl (HTTPException 401 ''Invalid authorization header (expected 'Session <token>')''), db)
      else case get_user_doc_by_token db t of
             None \<Rightarrow> (Inl InvalidSession, db)
           | Some user_doc \<Rightarrow>
               (Inr ''Signed out'',
                update_one (\<lambda>d. doc_id d = doc_id user_doc)
                  (\<lambda>d. d\<lparr>logged_in := False, session_token := None,
                          session_expires_at := None\<rparr>) db))"
  unfolding signout_def
  by (simp add: partition_Session [simplified] str_lower_Session InvalidSession_def
        split: option.splits)

lemma require_session_Session:
  "require_session (Some (''Session '' @ t)) db =
     (if t = [] then Inl (HTTPException 401 ''Invalid authorization header'')
      else case get_user_doc_by_token db t of
             None \<Rightarrow> Inl InvalidSession
           | Some user_doc \<Rightarrow>
               if \<not> logged_in user_doc then Inl SessionInactive
               else if disabled user_doc then Inl UserDisabled
               else Inr \<lparr>out_id = doc_id user_doc, out_username = username user_doc,
                         out_full_name = full_name user_doc, out_logged_in = True\<rparr>)"
  unfolding require_session_def
  by (simp add: partition_Session [simplified] str_lower_Session InvalidSession_def
        SessionInactive_def UserDisabled_def split: option.splits)

text \<open>
  Lowering a character gives a lower-case ASCII letter only for that letter and for its
  upper case: no other character below 256 lowers to it.
\<close>

lemma lower_char_eq_lower:
  assumes "97 \<le> (of_char d :: nat)" "(of_char d :: nat) \<le> 122"
  shows "lower_char c = d \<longleftrightarrow> c = d \<or> (of_char c :: nat) + 32 = of_char d"
proof (cases "(65 \<le> (of_char c :: nat) \<and> (of_char c :: nat) \<le> 90) \<or>
    (192 \<le> (of_char c :: nat) \<and> (of_char c :: nat) \<le> 222 \<and> (of_char c :: nat) \<noteq> 215)")
  case True
  then have "lower_char c = char_of ((of_char c :: nat) + 32)"
    by (simp add: lower_char_def Let_def)
  moreover have "(char_of ((of_char c :: nat) + 32) = d) = ((of_char c :: nat) + 32 = of_char d)"
  proof -
    have "((of_char c :: nat) + 32) mod 256 = (of_char c :: nat) + 32"
      using True by (intro mod_less) arith
    then show ?thesis by (simp add: char_of_eq_iff take_bit_eq_mod)
  qed
  moreover have "c \<noteq> d" using True assms by auto
  ultimately show ?thesis by simp
next
  case False
  then have "lower_char c = c" unfolding lower_char_def Let_def by (simp only: if_False)
  moreover have "(of_char c :: nat) + 32 \<noteq> of_char d" using False assms by auto
  ultimately show ?thesis by simp
qed

lemma lower_char_letters:
  "lower_char c = CHR ''s'' \<longleftrightarrow> c = CHR ''s'' \<or> c = CHR ''S''"
  "lower_char c = CHR ''e'' \<longleftrightarrow> c = CHR ''e'' \<or> c = CHR ''E''"
  "lower_char c = CHR ''i'' \<longleftrightarrow> c = CHR ''i'' \<or> c = CHR ''I''"
  "lower_char c = CHR ''o'' \<longleftrightarrow> c = CHR ''o'' \<or> c = CHR ''O''"
  "lower_char c = CHR ''n'' \<longleftrightarrow> c = CHR ''n'' \<or> c = CHR ''N''"
proof -
  have "((of_char c :: nat) + 32 = of_char CHR ''s'') = ((of_char c :: nat) = of_char CHR ''S'')"
    "((of_char c :: nat) + 32 = of_char CHR ''e'') = ((of_char c :: nat) = of_char CHR ''E'')"
    "((of_char c :: nat) + 32 = of_char CHR ''i'') = ((of_char c :: nat) = of_char CHR ''I'')"
    "((of_char c :: nat) + 32 = of_char CHR ''o'') = ((of_char c :: nat) = of_char CHR ''O'')"
    "((of_char c :: nat) + 32 = of_char CHR ''n'') = ((of_char c :: nat) = of_char CHR ''N'')"
    by simp_all
  then show
    "lower_char c = CHR ''s'' \<longleftrightarrow> c = CHR ''s'' \<or> c = CHR ''S''"
    "lower_char c = CHR ''e'' \<longleftrightarrow> c = CHR ''e'' \<or> c = CHR ''E''"
    "lower_char c = CHR ''i'' \<longleftrightarrow> c = CHR ''i'' \<or> c = CHR ''I''"
    "lower_char c = CHR ''o'' \<longleftrightarrow> c = CHR ''o'' \<or> c = CHR ''O''"
    "lower_char c = CHR ''n'' \<longleftrightarrow> c = CHR ''n'' \<or> c = CHR ''N''"
    by (subst lower_char_eq_lower; (simp_all only: of_char_eq_iff)?; simp)+
qed

lemma str_lower_session: "str_lower scheme = ''session'' \<longleftrightarrow> session_spelling scheme"
  unfolding str_lower_def session_spelling_def
  by (simp add: map_eq_Cons_conv list_all2_Cons2 lower_char_letters)

lemma partition_str_no_space:
  assumes "CHR '' '' \<notin> set a"
  shows "partition_str a = (a, [], [])"
proof -
  have d: "dropWhile (\<lambda>c. c \<noteq> CHR '' '') a = []"
    using assms by (auto simp: dropWhile_eq_Nil_conv)
  show ?thesis unfolding partition_str_def d by simp
qed

text \<open>The expiry stored in the records has no influence on protected access.\<close>

lemma require_session_expiry:
  "require_session authorization (map (\<lambda>d. d\<lparr>session_expires_at := e d\<rparr>) db)
     = require_session authorization db"
proof -
  have m: "\<And>t. get_user_doc_by_token (map (\<lambda>d. d\<lparr>session_expires_at := e d\<rparr>) db) t
      = map_option (\<lambda>d. d\<lparr>session_expires_at := e d\<rparr>) (get_user_doc_by_token db t)"
    by (rule by_token_map) simp
  show ?thesis
    unfolding require_session_def m
    by (simp split: option.splits prod.splits)
qed

section \<open>Evaluating the concrete data\<close>

lemmas demo_data = demo_db_def alice_def bob_def dave_def

lemmas demo_eval =
  get_user_doc_by_token_def get_user_doc_by_username_def find_one_def
  partition_str_def str_lower_def lower_char_def char_of_eq_iff
  demo_context_def scheme_prefix_def verify_password_def hash_password_def
  make_session_token_def default_settings_def timedelta_days_def datetime_add_def
  datetime_min_def datetime_max_def bson_date_def Let_def

section \<open>Registration\<close>

text \<open>
  Claim C6. When the store already holds a record with the username of the request,
  \<^verbatim>\<open>register\<close> fails with \<open>DuplicateUsername\<close> and returns the store it was given: no
  record is inserted and the existing one is left as it was.
\<close>

theorem register_duplicate_username:
  assumes "get_user_doc_by_username db (reg_username user) = Some existing"
  shows "register pwd_context now oid user db = (Inl DuplicateUsername, db)"
  using assms by (simp add: register_def DuplicateUsername_def)

theorem register_duplicate_username_witness:
  "get_user_doc_by_username demo_db ''alice'' = Some alice \<and>
   register demo_context 99 3
     \<lparr>reg_username = ''alice'', reg_password = ''other'', reg_full_name = None\<rparr> demo_db
     = (Inl DuplicateUsername, demo_db)"
proof -
  have found: "get_user_doc_by_username demo_db
      (reg_username \<lparr>reg_username = ''alice'', reg_password = ''other'', reg_full_name = None\<rparr>)
      = Some alice"
    by (simp add: get_user_doc_by_username_def find_one_def demo_db_def alice_def)
  show ?thesis
    using found register_duplicate_username [OF found, of demo_context 99 3] by simp
qed

section \<open>The login state of a record\<close>

lemma session_invariant_insert:
  "session_invariant db \<Longrightarrow> (session_token d \<noteq> None) = logged_in d \<Longrightarrow> session_invariant (db @ [d])"
  by (simp add: session_invariant_def)

lemma session_invariant_update:
  "session_invariant db \<Longrightarrow> (\<And>d. (session_token (upd d) \<noteq> None) = logged_in (upd d)) \<Longrightarrow>
   session_invariant (update_one q upd db)"
  unfolding session_invariant_def by (rule update_one_list_all)

text \<open>
  The expiry of a login exists when the configured days make a \<^verbatim>\<open>timedelta\<close> and the sum
  is a \<^verbatim>\<open>datetime\<close>; otherwise the computation raises \<^verbatim>\<open>OverflowError\<close>.
\<close>

lemma expiry_cases:
  "(case timedelta_days T of
      Inl e \<Rightarrow> A e
    | Inr delta \<Rightarrow> (case datetime_add now delta of Inl e \<Rightarrow> A e | Inr x \<Rightarrow> B x))
   = (if - 999999999 \<le> T \<and> T \<le> 999999999 \<and>
         - 62135596800000000 \<le> now + T * 86400000000 \<and>
         now + T * 86400000000 \<le> 253402300799999999
      then B (now + T * 86400000000) else A OverflowError)"
  by (auto simp: timedelta_days_def datetime_add_def datetime_min_def datetime_max_def)

text \<open>What each handler can do to the store.\<close>

lemma register_success:
  assumes "register pwd_context now oid user db = (Inr out, db')"
  shows "\<exists>h. hash_password pwd_context (reg_password user) = Inr h \<and>
           db' = db @ [\<lparr>doc_id = oid, username = reg_username user, hashed_password = Some h,
                         full_name = reg_full_name user, disabled = False, logged_in = False,
                         session_token = None, session_expires_at = None,
                         created_at = now div 1000 * 1000\<rparr>] \<and>
           out = \<lparr>out_id = oid, out_username = reg_username user,
                  out_full_name = reg_full_name user, out_logged_in = False\<rparr>"
  using assms
  by (auto simp: register_def create_user_doc_def insert_one_def bson_encode_def bson_date_def
        Let_def split: option.splits sum.splits if_splits)

lemma register_failure:
  "fst (register pwd_context now oid user db) = Inl e \<Longrightarrow>
   snd (register pwd_context now oid user db) = db"
  by (auto simp: register_def create_user_doc_def insert_one_def Let_def
        split: option.splits sum.splits if_splits)

lemma register_store:
  "snd (register pwd_context now oid user db) = db \<or>
   (\<exists>h. snd (register pwd_context now oid user db) =
      db @ [\<lparr>doc_id = oid, username = reg_username user, hashed_password = Some h,
             full_name = reg_full_name user, disabled = False, logged_in = False,
             session_token = None, session_expires_at = None,
             created_at = now div 1000 * 1000\<rparr>])"
proof (cases "fst (register pwd_context now oid user db)")
  case (Inl e)
  then show ?thesis by (simp add: register_failure)
next
  case (Inr out)
  then have "register pwd_context now oid user db =
      (Inr out, snd (register pwd_context now oid user db))"
    by (metis prod.collapse)
  from register_success [OF this] show ?thesis by blast
qed

lemma login_found:
  assumes "get_user_doc_by_username db (login_username body) = Some u"
  shows "login pwd_context settings now uuid4_hex body db =
     (case hashed_password u of
        None \<Rightarrow> (Inl InvalidCredentials, db)
      | Some hashed \<Rightarrow>
          if hashed = [] then (Inl InvalidCredentials, db)
          else
            (case verify_password pwd_context (login_password body) hashed of
               Inl e \<Rightarrow> (Inl e, db)
             | Inr ok \<Rightarrow>
                 if \<not> ok then (Inl InvalidCredentials, db)
                 else if disabled u then (Inl UserDisabled, db)
                 else if - 999999999 \<le> SESSION_TOKEN_TTL_DAYS settings \<and>
                         SESSION_TOKEN_TTL_DAYS settings \<le> 999999999 \<and>
                         - 62135596800000000
                           \<le> now + SESSION_TOKEN_TTL_DAYS settings * 86400000000 \<and>
                         now + SESSION_TOKEN_TTL_DAYS settings * 86400000000
                           \<le> 253402300799999999
                 then
                   (Inr \<lparr>out_session_token = uuid4_hex,
                         out_expires_at =
                           Some (now + SESSION_TOKEN_TTL_DAYS settings * 86400000000)\<rparr>,
                    update_one (\<lambda>d. doc_id d = doc_id u)
                      (\<lambda>d. d\<lparr>logged_in := True, session_token := Some uuid4_hex,
                              session_expires_at :=
                                Some ((now + SESSION_TOKEN_TTL_DAYS settings * 86400000000)
                                        div 1000 * 1000)\<rparr>)
                      db)
                 else (Inl OverflowError, db)))"
  using assms unfolding login_def make_session_token_def Let_def expiry_cases
  by (simp add: InvalidCredentials_def UserDisabled_def bson_date_def
        split: option.splits sum.splits)

lemma login_not_found:
  assumes "get_user_doc_by_username db (login_username body) = None"
  shows "login pwd_context settings now uuid4_hex body db = (Inl InvalidCredentials, db)"
  using assms by (simp add: login_def InvalidCredentials_def)

lemma login_success:
  assumes "login pwd_context settings now uuid4_hex body db = (Inr out, db')"
  shows "\<exists>u h. get_user_doc_by_username db (login_username body) = Some u \<and>
           hashed_password u = Some h \<and> h \<noteq> [] \<and>
           verify_password pwd_context (login_password body) h = Inr True \<and> \<not> disabled u \<and>
           - 999999999 \<le> SESSION_TOKEN_TTL_DAYS settings \<and>
           SESSION_TOKEN_TTL_DAYS settings \<le> 999999999 \<and>
           - 62135596800000000 \<le> now + SESSION_TOKEN_TTL_DAYS settings * 86400000000 \<and>
           now + SESSION_TOKEN_TTL_DAYS settings * 86400000000 \<le> 253402300799999999 \<and>
           out = \<lparr>out_session_token = uuid4_hex,
                  out_expires_at =
                    Some (now + SESSION_TOKEN_TTL_DAYS settings * 86400000000)\<rparr> \<and>
           db' = update_one (\<lambda>d. doc_id d = doc_id u)
                   (\<lambda>d. d\<lparr>logged_in := True, session_token := Some uuid4_hex,
                           session_expires_at :=
                             Some ((now + SESSION_TOKEN_TTL_DAYS settings * 86400000000)
                                     div 1000 * 1000)\<rparr>) db"
proof (cases "get_user_doc_by_username db (login_username body)")
  case None
  with assms show ?thesis by (simp add: login_not_found)
next
  case (Some u)
  show ?thesis
    using assms unfolding login_found [OF Some]
    by (auto simp: Some split: option.splits sum.splits if_splits)
qed

lemma login_failure:
  "fst (login pwd_context settings now uuid4_hex body db) = Inl e \<Longrightarrow>
   snd (login pwd_context settings now uuid4_hex body db) = db"
proof (cases "get_user_doc_by_username db (login_username body)")
  case None
  then show ?thesis by (simp add: login_not_found)
next
  case (Some u)
  assume "fst (login pwd_context settings now uuid4_hex body db) = Inl e"
  then show ?thesis
    unfolding login_found [OF Some]
    by (auto split: option.splits sum.splits if_splits)
qed

lemma login_store:
  "snd (login pwd_context settings now uuid4_hex body db) = db \<or>
   (\<exists>i e. snd (login pwd_context settings now uuid4_hex body db) =
      update_one (\<lambda>d. doc_id d = i)
        (\<lambda>d. d\<lparr>logged_in := True, session_token := Some uuid4_hex,
                session_expires_at := Some e\<rparr>) db)"
proof (cases "fst (login pwd_context settings now uuid4_hex body db)")
  case (Inl e)
  then show ?thesis by (simp add: login_failure)
next
  case (Inr out)
  then have "login pwd_context settings now uuid4_hex body db =
      (Inr out, snd (login pwd_context settings now uuid4_hex body db))"
    by (metis prod.collapse)
  from login_success [OF this] show ?thesis by blast
qed

lemma signout_success:
  assumes "signout authorization db = (Inr msg, db')"
  shows "\<exists>u t. get_user_doc_by_token db t = Some u \<and> msg = ''Signed out'' \<and>
           db' = update_one (\<lambda>d. doc_id d = doc_id u)
                   (\<lambda>d. d\<lparr>logged_in := False, session_token := None,
                           session_expires_at := None\<rparr>) db"
  using assms
  by (auto simp: signout_def split: option.splits prod.splits if_splits)

lemma signout_failure:
  "fst (signout authorization db) = Inl e \<Longrightarrow> snd (signout authorization db) = db"
  by (auto simp: signout_def split: option.splits prod.splits if_splits)

lemma signout_store:
  "snd (signout authorization db) = db \<or>
   (\<exists>i. snd (signout authorization db) =
      update_one (\<lambda>d. doc_id d = i)
        (\<lambda>d. d\<lparr>logged_in := False, session_token := None, session_expires_at := None\<rparr>) db)"
  by (auto simp: signout_def split: option.splits prod.splits)

text \<open>An update by the identifier of a record of the store reaches a record.\<close>

lemma update_one_hit:
  assumes "u \<in> set db" and "\<And>d. doc_id d = doc_id u \<Longrightarrow> P (upd d)"
  shows "list_ex P (update_one (\<lambda>d. doc_id d = doc_id u) upd db)"
  using assms(1)
proof (induction db)
  case Nil
  then show ?case by simp
next
  case (Cons d ds)
  then show ?case by (cases "doc_id d = doc_id u") (auto simp: assms(2))
qed

text \<open>
  The handlers keep the identifiers unique: \<^verbatim>\<open>insert_one\<close> refuses a known identifier and
  the updates do not touch \<^verbatim>\<open>_id\<close>.
\<close>

lemma unique_ids_update:
  "unique_ids db \<Longrightarrow> (\<And>d. doc_id (upd d) = doc_id d) \<Longrightarrow> unique_ids (update_one q upd db)"
  by (simp add: unique_ids_def update_one_map_frame)

lemma unique_ids_preserved:
  assumes "unique_ids db"
  shows "unique_ids (snd (register pwd_context now oid user db))"
    and "unique_ids (snd (login pwd_context settings now uuid4_hex body db))"
    and "unique_ids (snd (signout authorization db))"
proof -
  show "unique_ids (snd (register pwd_context now oid user db))"
    using assms
    by (auto simp: register_def create_user_doc_def insert_one_def bson_encode_def
          unique_ids_def list_ex_iff Let_def split: option.splits sum.splits)
  show "unique_ids (snd (login pwd_context settings now uuid4_hex body db))"
    using login_store [of pwd_context settings now uuid4_hex body db] assms
    by (auto simp: unique_ids_update)
  show "unique_ids (snd (signout authorization db))"
    using signout_store [of authorization db] assms
    by (auto simp: unique_ids_update)
qed

text \<open>
  Claim C5. In every record a session token is present if and only if \<^verbatim>\<open>logged_in\<close> is
  true, and each of \<^verbatim>\<open>register\<close>, \<^verbatim>\<open>login\<close> and \<^verbatim>\<open>signout\<close> keeps it so, whether the call
  succeeds or fails. What the calls write: a successful \<^verbatim>\<open>register\<close> appends one record,
  with the hash of the password, \<^verbatim>\<open>logged_in\<close> false and no token; a successful \<^verbatim>\<open>login\<close> is one update of the record
  found by the username, which sets \<^verbatim>\<open>logged_in\<close> and the token together; a successful
  \<^verbatim>\<open>signout\<close> is one update of a record that held a token, which clears both together.
  A failing call leaves the store as it was.
\<close>

theorem session_invariant_preserved:
  assumes "session_invariant db"
  shows "session_invariant (snd (register pwd_context now oid user db)) \<and>
         session_invariant (snd (login pwd_context settings now uuid4_hex body db)) \<and>
         session_invariant (snd (signout authorization db)) \<and>
         (\<forall>out db'. register pwd_context now oid user db = (Inr out, db') \<longrightarrow>
            (\<exists>h. hash_password pwd_context (reg_password user) = Inr h \<and>
                db' = db @ [\<lparr>doc_id = oid, username = reg_username user,
                                hashed_password = Some h, full_name = reg_full_name user,
                                disabled = False, logged_in = False, session_token = None,
                                session_expires_at = None,
                                created_at = now div 1000 * 1000\<rparr>]) \<and>
            \<not> out_logged_in out) \<and>
         (\<forall>out db'. login pwd_context settings now uuid4_hex body db = (Inr out, db') \<longrightarrow>
            (\<exists>u e. get_user_doc_by_username db (login_username body) = Some u \<and>
                db' = update_one (\<lambda>d. doc_id d = doc_id u)
                        (\<lambda>d. d\<lparr>logged_in := True, session_token := Some uuid4_hex,
                                session_expires_at := Some e\<rparr>) db \<and>
                list_ex (\<lambda>d. doc_id d = doc_id u \<and> logged_in d \<and>
                              session_token d = Some uuid4_hex) db')) \<and>
         (\<forall>msg db'. signout authorization db = (Inr msg, db') \<longrightarrow>
            (\<exists>u. u \<in> set db \<and> session_token u \<noteq> None \<and>
                db' = update_one (\<lambda>d. doc_id d = doc_id u)
                        (\<lambda>d. d\<lparr>logged_in := False, session_token := None,
                                session_expires_at := None\<rparr>) db \<and>
                list_ex (\<lambda>d. doc_id d = doc_id u \<and> \<not> logged_in d \<and>
                              session_token d = None) db')) \<and>
         (\<forall>e. fst (register pwd_context now oid user db) = Inl e \<longrightarrow>
            snd (register pwd_context now oid user db) = db) \<and>
         (\<forall>e. fst (login pwd_context settings now uuid4_hex body db) = Inl e \<longrightarrow>
            snd (login pwd_context settings now uuid4_hex body db) = db) \<and>
         (\<forall>e. fst (signout authorization db) = Inl e \<longrightarrow>
            snd (signout authorization db) = db)"
proof (intro conjI allI impI)
  show "session_invariant (snd (register pwd_context now oid user db))"
    using register_store [of pwd_context now oid user db] assms
    by (auto simp: session_invariant_insert)
  show "session_invariant (snd (login pwd_context settings now uuid4_hex body db))"
    using login_store [of pwd_context settings now uuid4_hex body db]
  proof (elim disjE exE)
    assume "snd (login pwd_context settings now uuid4_hex body db) = db"
    then show ?thesis using assms by simp
  next
    fix i e
    assume h: "snd (login pwd_context settings now uuid4_hex body db) =
      update_one (\<lambda>d. doc_id d = i)
        (\<lambda>d. d\<lparr>logged_in := True, session_token := Some uuid4_hex,
                session_expires_at := Some e\<rparr>) db"
    show ?thesis unfolding h by (rule session_invariant_update [OF assms]) simp
  qed
  show "session_invariant (snd (signout authorization db))"
    using signout_store [of authorization db]
  proof (elim disjE exE)
    assume "snd (signout authorization db) = db"
    then show ?thesis using assms by simp
  next
    fix i
    assume h: "snd (signout authorization db) =
      update_one (\<lambda>d. doc_id d = i)
        (\<lambda>d. d\<lparr>logged_in := False, session_token := None, session_expires_at := None\<rparr>) db"
    show ?thesis unfolding h by (rule session_invariant_update [OF assms]) simp
  qed
next
  fix out db'
  assume r: "register pwd_context now oid user db = (Inr out, db')"
  from register_success [OF r]
  show "\<exists>h. hash_password pwd_context (reg_password user) = Inr h \<and>
                db' = db @ [\<lparr>doc_id = oid, username = reg_username user,
                                hashed_password = Some h, full_name = reg_full_name user,
                                disabled = False, logged_in = False, session_token = None,
                                session_expires_at = None,
                                created_at = now div 1000 * 1000\<rparr>]"
    by blast
  from register_success [OF r] show "\<not> out_logged_in out" by auto
next
  fix out db'
  assume l: "login pwd_context settings now uuid4_hex body db = (Inr out, db')"
  from login_success [OF l] obtain u e
    where u: "get_user_doc_by_username db (login_username body) = Some u"
      and db': "db' = update_one (\<lambda>d. doc_id d = doc_id u)
                        (\<lambda>d. d\<lparr>logged_in := True, session_token := Some uuid4_hex,
                                session_expires_at := Some e\<rparr>) db"
    by blast
  have "u \<in> set db"
    using u find_one_Some by (auto simp: get_user_doc_by_username_def)
  then have "list_ex (\<lambda>d. doc_id d = doc_id u \<and> logged_in d \<and>
      session_token d = Some uuid4_hex) db'"
    unfolding db' by (rule update_one_hit) simp
  with u db'
  show "\<exists>u e. get_user_doc_by_username db (login_username body) = Some u \<and>
                db' = update_one (\<lambda>d. doc_id d = doc_id u)
                        (\<lambda>d. d\<lparr>logged_in := True, session_token := Some uuid4_hex,
                                session_expires_at := Some e\<rparr>) db \<and>
                list_ex (\<lambda>d. doc_id d = doc_id u \<and> logged_in d \<and>
                              session_token d = Some uuid4_hex) db'"
    by blast
next
  fix msg db'
  assume s: "signout authorization db = (Inr msg, db')"
  from signout_success [OF s] obtain u t
    where u: "get_user_doc_by_token db t = Some u"
      and db': "db' = update_one (\<lambda>d. doc_id d = doc_id u)
                        (\<lambda>d. d\<lparr>logged_in := False, session_token := None,
                                session_expires_at := None\<rparr>) db"
    by blast
  have m: "u \<in> set db" "session_token u \<noteq> None"
    using by_token_Some [OF u] find_one_Some by fastforce+
  from m(1) have "list_ex (\<lambda>d. doc_id d = doc_id u \<and> \<not> logged_in d \<and>
      session_token d = None) db'"
    unfolding db' by (rule update_one_hit) simp
  with m db'
  show "\<exists>u. u \<in> set db \<and> session_token u \<noteq> None \<and>
                db' = update_one (\<lambda>d. doc_id d = doc_id u)
                        (\<lambda>d. d\<lparr>logged_in := False, session_token := None,
                                session_expires_at := None\<rparr>) db \<and>
                list_ex (\<lambda>d. doc_id d = doc_id u \<and> \<not> logged_in d \<and>
                              session_token d = None) db'"
    by blast
next
  fix e
  assume "fst (register pwd_context now oid user db) = Inl e"
  then show "snd (register pwd_context now oid user db) = db" by (rule register_failure)
next
  fix e
  assume "fst (login pwd_context settings now uuid4_hex body db) = Inl e"
  then show "snd (login pwd_context settings now uuid4_hex body db) = db" by (rule login_failure)
next
  fix e
  assume "fst (signout authorization db) = Inl e"
  then show "snd (signout authorization db) = db" by (rule signout_failure)
qed

theorem session_invariant_preserved_witness:
  "session_invariant demo_db \<and>
   register demo_context 99 3
      \<lparr>reg_username = ''carol'', reg_password = ''s3cret'', reg_full_name = None\<rparr> demo_db
     = (Inr \<lparr>out_id = 3, out_username = ''carol'', out_full_name = None, out_logged_in = False\<rparr>,
        demo_db @ [\<lparr>doc_id = 3, username = ''carol'',
                     hashed_password = Some ''$bcrypt-sha256$s3cret'', full_name = None,
                     disabled = False, logged_in = False, session_token = None,
                     session_expires_at = None, created_at = 0\<rparr>]) \<and>
   session_invariant
     (demo_db @ [\<lparr>doc_id = 3, username = ''carol'',
                   hashed_password = Some ''$bcrypt-sha256$s3cret'', full_name = None,
                   disabled = False, logged_in = False, session_token = None,
                   session_expires_at = None, created_at = 0\<rparr>]) \<and>
   login demo_context default_settings 99 ''t2''
      \<lparr>login_username = ''bob'', login_password = ''hunter2''\<rparr> demo_db
     = (Inr \<lparr>out_session_token = ''t2'', out_expires_at = Some 2592000000099\<rparr>,
        [alice,
         bob\<lparr>logged_in := True, session_token := Some ''t2'',
             session_expires_at := Some 2592000000000\<rparr>,
         dave]) \<and>
   session_invariant
     [alice,
      bob\<lparr>logged_in := True, session_token := Some ''t2'',
          session_expires_at := Some 2592000000000\<rparr>,
      dave] \<and>
   list_ex (\<lambda>d. logged_in d \<and> session_token d = Some ''t2'')
     [alice,
      bob\<lparr>logged_in := True, session_token := Some ''t2'',
          session_expires_at := Some 2592000000000\<rparr>,
      dave] \<and>
   signout (Some ''Session t1'') demo_db
     = (Inr ''Signed out'',
        [alice\<lparr>logged_in := False, session_token := None, session_expires_at := None\<rparr>,
         bob, dave]) \<and>
   session_invariant
     [alice\<lparr>logged_in := False, session_token := None, session_expires_at := None\<rparr>,
      bob, dave] \<and>
   fst (register demo_context 99 3
      \<lparr>reg_username = ''alice'', reg_password = ''other'', reg_full_name = None\<rparr> demo_db)
     = Inl DuplicateUsername \<and>
   snd (register demo_context 99 3
      \<lparr>reg_username = ''alice'', reg_password = ''other'', reg_full_name = None\<rparr> demo_db)
     = demo_db"
proof -
  have inv: "session_invariant demo_db"
    by (simp add: session_invariant_def demo_data)
  have reg: "register demo_context 99 3
      \<lparr>reg_username = ''carol'', reg_password = ''s3cret'', reg_full_name = None\<rparr> demo_db
     = (Inr \<lparr>out_id = 3, out_username = ''carol'', out_full_name = None, out_logged_in = False\<rparr>,
        demo_db @ [\<lparr>doc_id = 3, username = ''carol'',
                     hashed_password = Some ''$bcrypt-sha256$s3cret'', full_name = None,
                     disabled = False, logged_in = False, session_token = None,
                     session_expires_at = None, created_at = 0\<rparr>])"
    by (simp add: register_def create_user_doc_def insert_one_def bson_encode_def
          demo_eval demo_data)
  have log: "login demo_context default_settings 99 ''t2''
      \<lparr>login_username = ''bob'', login_password = ''hunter2''\<rparr> demo_db
     = (Inr \<lparr>out_session_token = ''t2'', out_expires_at = Some 2592000000099\<rparr>,
        [alice,
         bob\<lparr>logged_in := True, session_token := Some ''t2'',
             session_expires_at := Some 2592000000000\<rparr>,
         dave])"
    by (simp add: login_def demo_eval demo_data)
  have out: "signout (Some ''Session t1'') demo_db
     = (Inr ''Signed out'',
        [alice\<lparr>logged_in := False, session_token := None, session_expires_at := None\<rparr>,
         bob, dave])"
    by (simp add: signout_def demo_eval demo_data)
  have dup: "fst (register demo_context 99 3
      \<lparr>reg_username = ''alice'', reg_password = ''other'', reg_full_name = None\<rparr> demo_db)
     = Inl DuplicateUsername"
    by (simp add: register_def DuplicateUsername_def demo_eval demo_data)
  note th1 = session_invariant_preserved [OF inv, of demo_context 99 3
      "\<lparr>reg_username = ''carol'', reg_password = ''s3cret'', reg_full_name = None\<rparr>"
      default_settings "''t2''" "\<lparr>login_username = ''bob'', login_password = ''hunter2''\<rparr>"
      "Some ''Session t1''"]
  note th2 = session_invariant_preserved [OF inv, of demo_context 99 3
      "\<lparr>reg_username = ''alice'', reg_password = ''other'', reg_full_name = None\<rparr>"
      default_settings "''t2''" "\<lparr>login_username = ''bob'', login_password = ''hunter2''\<rparr>"
      "Some ''Session t1''"]
  have i1: "session_invariant
     (demo_db @ [\<lparr>doc_id = 3, username = ''carol'',
                   hashed_password = Some ''$bcrypt-sha256$s3cret'', full_name = None,
                   disabled = False, logged_in = False, session_token = None,
                   session_expires_at = None, created_at = 0\<rparr>])"
    using th1 unfolding reg by simp
  have i2: "session_invariant
     [alice,
      bob\<lparr>logged_in := True, session_token := Some ''t2'',
          session_expires_at := Some 2592000000000\<rparr>,
      dave]"
    using th1 unfolding log by simp
  have i3: "session_invariant
     [alice\<lparr>logged_in := False, session_token := None, session_expires_at := None\<rparr>,
      bob, dave]"
    using th1 unfolding out by simp
  have hit: "list_ex (\<lambda>d. logged_in d \<and> session_token d = Some ''t2'')
     [alice,
      bob\<lparr>logged_in := True, session_token := Some ''t2'',
          session_expires_at := Some 2592000000000\<rparr>,
      dave]"
    by simp
  have same: "snd (register demo_context 99 3
      \<lparr>reg_username = ''alice'', reg_password = ''other'', reg_full_name = None\<rparr> demo_db)
     = demo_db"
    using th2 dup by blast
  show ?thesis
    using inv reg log out dup i1 i2 i3 hit same by blast
qed

section \<open>Signing out\<close>

text \<open>
  Claim C8. When the token of a signout request finds a record, the request succeeds and
  the clearing update is applied whatever the record's \<^verbatim>\<open>disabled\<close> and \<^verbatim>\<open>logged_in\<close> are
  (neither is a hypothesis). In every record of the store the identifier, \<^verbatim>\<open>username\<close>,
  \<^verbatim>\<open>hashed_password\<close>, \<^verbatim>\<open>full_name\<close>, \<^verbatim>\<open>disabled\<close> and \<^verbatim>\<open>created_at\<close> are as before; with unique
  identifiers the new store is the old one with \<^verbatim>\<open>logged_in\<close>, \<^verbatim>\<open>session_token\<close> and
  \<^verbatim>\<open>session_expires_at\<close> of the found record cleared.
\<close>

theorem signout_frame:
  assumes "get_user_doc_by_token db t = Some u"
  shows "fst (signout (Some (''Session '' @ t)) db) = Inr ''Signed out'' \<and>
         map frame_fields (snd (signout (Some (''Session '' @ t)) db)) = map frame_fields db \<and>
         (unique_ids db \<longrightarrow>
            snd (signout (Some (''Session '' @ t)) db) =
              map (\<lambda>d. if doc_id d = doc_id u
                        then d\<lparr>logged_in := False, session_token := None,
                                session_expires_at := None\<rparr>
                        else d) db)"
proof -
  have t: "t \<noteq> []" using by_token_Some [OF assms] by simp
  have s: "signout (Some (''Session '' @ t)) db =
      (Inr ''Signed out'',
       update_one (\<lambda>d. doc_id d = doc_id u)
         (\<lambda>d. d\<lparr>logged_in := False, session_token := None, session_expires_at := None\<rparr>) db)"
    using t assms unfolding signout_Session by simp
  have f: "map frame_fields (update_one (\<lambda>d. doc_id d = doc_id u)
         (\<lambda>d. d\<lparr>logged_in := False, session_token := None, session_expires_at := None\<rparr>) db)
       = map frame_fields db"
    by (rule update_one_map_frame) (simp add: frame_fields_def)
  show ?thesis
    unfolding s by (simp add: f unique_ids_def update_one_unique_id)
qed

theorem signout_frame_witness:
  "get_user_doc_by_token demo_db ''t9'' = Some dave \<and>
   unique_ids demo_db \<and>
   disabled dave \<and>
   fst (signout (Some ''Session t9'') demo_db) = Inr ''Signed out'' \<and>
   map frame_fields (snd (signout (Some ''Session t9'') demo_db)) = map frame_fields demo_db \<and>
   snd (signout (Some ''Session t9'') demo_db) =
     map (\<lambda>d. if doc_id d = doc_id dave
               then d\<lparr>logged_in := False, session_token := None, session_expires_at := None\<rparr>
               else d) demo_db"
proof -
  have found: "get_user_doc_by_token demo_db ''t9'' = Some dave"
    by (simp add: demo_eval demo_data)
  have ids: "unique_ids demo_db"
    by (simp add: unique_ids_def demo_data)
  have dis: "disabled dave"
    by (simp add: dave_def)
  have header: "''Session '' @ ''t9'' = ''Session t9''"
    by simp
  show ?thesis
    using found ids dis signout_frame [OF found] unfolding header by blast
qed

text \<open>
  Claim C1, as the specification states it, expects protected access after a signout to
  fail with \<open>SessionInactive\<close>, the record still being found by the token. The update of
  \<^verbatim>\<open>signout\<close> removes \<^verbatim>\<open>session_token\<close> from the record, so in the store \<open>alice\<close> signed out of
  the token finds nothing and the failure is \<^verbatim>\<open>Invalid session token\<close>.
\<close>

theorem signout_then_protected_counterexample:
  "get_user_doc_by_token demo_db ''t1'' = Some alice \<and>
   signout (Some ''Session t1'') demo_db =
     (Inr ''Signed out'',
      [alice\<lparr>logged_in := False, session_token := None, session_expires_at := None\<rparr>,
       bob, dave]) \<and>
   get_user_doc_by_token
     [alice\<lparr>logged_in := False, session_token := None, session_expires_at := None\<rparr>, bob, dave]
     ''t1'' = None \<and>
   require_session (Some ''Session t1'')
     [alice\<lparr>logged_in := False, session_token := None, session_expires_at := None\<rparr>, bob, dave]
     = Inl (HTTPException 401 ''Invalid session token'') \<and>
   require_session (Some ''Session t1'')
     [alice\<lparr>logged_in := False, session_token := None, session_expires_at := None\<rparr>, bob, dave]
     \<noteq> Inl SessionInactive"
  by (simp add: signout_def require_session_def demo_eval demo_data SessionInactive_def)

text \<open>
  Claim C1, amended. When the identifiers are unique, the token \<open>t\<close> finds a record and no
  other record holds \<open>t\<close>, then signout with \<^verbatim>\<open>Session t\<close> succeeds; the new store is the
  old one with \<^verbatim>\<open>logged_in\<close> false and \<^verbatim>\<open>session_token\<close> and \<^verbatim>\<open>session_expires_at\<close> removed in
  the found record; afterwards \<open>t\<close> finds no record, and protected access with
  \<^verbatim>\<open>Session t\<close> fails with \<open>InvalidSession\<close>.
\<close>

theorem signout_then_protected:
  assumes "unique_ids db"
    and "get_user_doc_by_token db t = Some u"
    and "length (token_holders db t) \<le> 1"
  shows "fst (signout (Some (''Session '' @ t)) db) = Inr ''Signed out'' \<and>
         snd (signout (Some (''Session '' @ t)) db) =
           map (\<lambda>d. if doc_id d = doc_id u
                     then d\<lparr>logged_in := False, session_token := None,
                             session_expires_at := None\<rparr>
                     else d) db \<and>
         get_user_doc_by_token (snd (signout (Some (''Session '' @ t)) db)) t = None \<and>
         require_session (Some (''Session '' @ t)) (snd (signout (Some (''Session '' @ t)) db))
           = Inl InvalidSession"
proof -
  have t: "t \<noteq> []" and f: "find_one (\<lambda>d. session_token d = Some t) db = Some u"
    using by_token_Some [OF assms(2)] by simp_all
  have u: "u \<in> set db" "session_token u = Some t"
    using find_one_Some [OF f] by simp_all
  have s: "signout (Some (''Session '' @ t)) db =
      (Inr ''Signed out'',
       update_one (\<lambda>d. doc_id d = doc_id u)
         (\<lambda>d. d\<lparr>logged_in := False, session_token := None, session_expires_at := None\<rparr>) db)"
    using t assms(2) unfolding signout_Session by simp
  have m: "update_one (\<lambda>d. doc_id d = doc_id u)
         (\<lambda>d. d\<lparr>logged_in := False, session_token := None, session_expires_at := None\<rparr>) db
       = map (\<lambda>d. if doc_id d = doc_id u
                 then d\<lparr>logged_in := False, session_token := None,
                         session_expires_at := None\<rparr>
                 else d) db"
    using assms(1) by (simp add: unique_ids_def update_one_unique_id)
  have g: "get_user_doc_by_token (update_one (\<lambda>d. doc_id d = doc_id u)
         (\<lambda>d. d\<lparr>logged_in := False, session_token := None, session_expires_at := None\<rparr>) db) t
       = None"
    by (rule token_gone [OF assms(1) u assms(3)]) simp
  have r: "require_session (Some (''Session '' @ t))
      (update_one (\<lambda>d. doc_id d = doc_id u)
         (\<lambda>d. d\<lparr>logged_in := False, session_token := None, session_expires_at := None\<rparr>) db)
      = Inl InvalidSession"
    unfolding require_session_Session using t g by simp
  show ?thesis
    unfolding s using m g r by simp
qed

theorem signout_then_protected_witness:
  "unique_ids demo_db \<and>
   get_user_doc_by_token demo_db ''t1'' = Some alice \<and>
   length (token_holders demo_db ''t1'') \<le> 1 \<and>
   fst (signout (Some ''Session t1'') demo_db) = Inr ''Signed out'' \<and>
   snd (signout (Some ''Session t1'') demo_db) =
     [alice\<lparr>logged_in := False, session_token := None, session_expires_at := None\<rparr>,
      bob, dave] \<and>
   get_user_doc_by_token (snd (signout (Some ''Session t1'') demo_db)) ''t1'' = None \<and>
   require_session (Some ''Session t1'') (snd (signout (Some ''Session t1'') demo_db))
     = Inl InvalidSession"
proof -
  have ids: "unique_ids demo_db"
    by (simp add: unique_ids_def demo_data)
  have found: "get_user_doc_by_token demo_db ''t1'' = Some alice"
    by (simp add: demo_eval demo_data)
  have one: "length (token_holders demo_db ''t1'') \<le> 1"
    by (simp add: token_holders_def demo_data)
  have header: "''Session '' @ ''t1'' = ''Session t1''"
    by simp
  have cleared: "map (\<lambda>d. if doc_id d = doc_id alice
                     then d\<lparr>logged_in := False, session_token := None,
                             session_expires_at := None\<rparr>
                     else d) demo_db
      = [alice\<lparr>logged_in := False, session_token := None, session_expires_at := None\<rparr>,
         bob, dave]"
    by (simp add: demo_data)
  show ?thesis
    using ids found one signout_then_protected [OF ids found one]
    unfolding header cleared by blast
qed

section \<open>Logging in\<close>

text \<open>
  Claim C7, as the specification states it, expects the expiry returned by a login to equal
  the expiry stored in the record. The store keeps dates in whole milliseconds: a login at
  99 microseconds returns an expiry ending in 99 microseconds, and the record holds the
  expiry without them.
\<close>

theorem login_issues_token_counterexample:
  "login demo_context default_settings 99 ''t2''
     \<lparr>login_username = ''bob'', login_password = ''hunter2''\<rparr> demo_db
     = (Inr \<lparr>out_session_token = ''t2'', out_expires_at = Some 2592000000099\<rparr>,
        [alice,
         bob\<lparr>logged_in := True, session_token := Some ''t2'',
             session_expires_at := Some 2592000000000\<rparr>,
         dave]) \<and>
   get_user_doc_by_username
     [alice,
      bob\<lparr>logged_in := True, session_token := Some ''t2'',
          session_expires_at := Some 2592000000000\<rparr>,
      dave] ''bob''
     = Some (bob\<lparr>logged_in := True, session_token := Some ''t2'',
                 session_expires_at := Some 2592000000000\<rparr>) \<and>
   session_expires_at
     (bob\<lparr>logged_in := True, session_token := Some ''t2'',
          session_expires_at := Some 2592000000000\<rparr>)
     \<noteq> out_expires_at \<lparr>out_session_token = ''t2'', out_expires_at = Some 2592000000099\<rparr>"
  by (simp add: login_def demo_eval demo_data)

text \<open>
  Claim C7, amended. A successful login at time \<open>now\<close> returns the generated token and the
  expiry \<open>now\<close> plus \<^verbatim>\<open>SESSION_TOKEN_TTL_DAYS\<close> days (86400000000 microseconds each; the
  default of the setting is 30). The record of the user then holds \<^verbatim>\<open>logged_in = True\<close>, the
  returned token, and the returned expiry cut down to whole milliseconds: the stored expiry
  is at most the returned one, less than a millisecond below it, and equal to it exactly
  when \<open>now\<close> is a whole number of milliseconds. The identifiers of the store are unique.
\<close>

theorem login_issues_token:
  assumes "unique_ids db"
    and "login pwd_context settings now uuid4_hex body db = (Inr out, db')"
  shows "out_session_token out = uuid4_hex \<and>
         out_expires_at out = Some (now + SESSION_TOKEN_TTL_DAYS settings * 86400000000) \<and>
         (\<exists>u'. get_user_doc_by_username db' (login_username body) = Some u' \<and>
                logged_in u' \<and>
                session_token u' = Some (out_session_token out) \<and>
                session_expires_at u' =
                  Some ((now + SESSION_TOKEN_TTL_DAYS settings * 86400000000) div 1000 * 1000)) \<and>
         (now + SESSION_TOKEN_TTL_DAYS settings * 86400000000) div 1000 * 1000
           \<le> now + SESSION_TOKEN_TTL_DAYS settings * 86400000000 \<and>
         now + SESSION_TOKEN_TTL_DAYS settings * 86400000000
           < (now + SESSION_TOKEN_TTL_DAYS settings * 86400000000) div 1000 * 1000 + 1000 \<and>
         ((now + SESSION_TOKEN_TTL_DAYS settings * 86400000000) div 1000 * 1000
            = now + SESSION_TOKEN_TTL_DAYS settings * 86400000000
          \<longleftrightarrow> now mod 1000 = 0) \<and>
         SESSION_TOKEN_TTL_DAYS default_settings = 30"
proof -
  define e where "e = now + SESSION_TOKEN_TTL_DAYS settings * 86400000000"
  obtain u where u: "get_user_doc_by_username db (login_username body) = Some u"
    and out: "out = \<lparr>out_session_token = uuid4_hex, out_expires_at = Some e\<rparr>"
    and db': "db' = update_one (\<lambda>d. doc_id d = doc_id u)
                   (\<lambda>d. d\<lparr>logged_in := True, session_token := Some uuid4_hex,
                           session_expires_at := Some (e div 1000 * 1000)\<rparr>) db"
    using login_success [OF assms(2)] unfolding e_def by blast
  have rec: "get_user_doc_by_username db' (login_username body) =
      Some (u\<lparr>logged_in := True, session_token := Some uuid4_hex,
              session_expires_at := Some (e div 1000 * 1000)\<rparr>)"
    unfolding db' by (rule by_username_after_update [OF assms(1) u]) simp
  have split: "e div 1000 * 1000 + e mod 1000 = e"
    by (rule div_mult_mod_eq)
  have bounds: "0 \<le> e mod 1000" "e mod 1000 < 1000"
    by simp_all
  have a1: "e div 1000 * 1000 \<le> e" and a2: "e < e div 1000 * 1000 + 1000"
    using split bounds by linarith+
  have "SESSION_TOKEN_TTL_DAYS settings * 86400000000
      = SESSION_TOKEN_TTL_DAYS settings * 86400000 * 1000"
    by simp
  then have "e mod 1000 = now mod 1000"
    unfolding e_def by (simp only: mod_mult_self1)
  then have a3: "(e div 1000 * 1000 = e) \<longleftrightarrow> (now mod 1000 = 0)"
    using split by linarith
  show ?thesis
    using rec a1 a2 a3 unfolding e_def [symmetric]
    by (simp add: out default_settings_def)
qed

theorem login_issues_token_witness:
  "unique_ids demo_db \<and>
   login demo_context default_settings 99 ''t2''
     \<lparr>login_username = ''bob'', login_password = ''hunter2''\<rparr> demo_db
     = (Inr \<lparr>out_session_token = ''t2'', out_expires_at = Some 2592000000099\<rparr>,
        [alice,
         bob\<lparr>logged_in := True, session_token := Some ''t2'',
             session_expires_at := Some 2592000000000\<rparr>,
         dave]) \<and>
   (\<exists>u'. get_user_doc_by_username
            [alice,
             bob\<lparr>logged_in := True, session_token := Some ''t2'',
                 session_expires_at := Some 2592000000000\<rparr>,
             dave] ''bob'' = Some u' \<and>
          logged_in u' \<and> session_token u' = Some ''t2'' \<and>
          session_expires_at u' = Some 2592000000000)"
proof -
  have ids: "unique_ids demo_db"
    by (simp add: unique_ids_def demo_data)
  have run: "login demo_context default_settings 99 ''t2''
     \<lparr>login_username = ''bob'', login_password = ''hunter2''\<rparr> demo_db
     = (Inr \<lparr>out_session_token = ''t2'', out_expires_at = Some 2592000000099\<rparr>,
        [alice,
         bob\<lparr>logged_in := True, session_token := Some ''t2'',
             session_expires_at := Some 2592000000000\<rparr>,
         dave])"
    by (simp add: login_def demo_eval demo_data)
  show ?thesis
    using ids run login_issues_token [OF ids run]
    by (simp add: default_settings_def)
qed







text \<open>
  Claim C9, as the specification states it, expects a malformed stored hash to make
  verification return false, so that login fails with \<open>InvalidCredentials\<close>.
  \<^verbatim>\<open>verify_password\<close> is the bare call \<^verbatim>\<open>pwd_context.verify(plain, hashed)\<close> and \<^verbatim>\<open>login\<close> has
  no handler around it: with a context that raises on a string it cannot identify, the
  exception leaves \<^verbatim>\<open>verify_password\<close> and \<^verbatim>\<open>login\<close> as it is.
\<close>

theorem malformed_hash_counterexample:
  "verify_password demo_context ''pw123'' ''not-a-hash'' = Inl UnknownHashError \<and>
   verify_password demo_context ''pw123'' ''not-a-hash'' \<noteq> Inr False \<and>
   get_user_doc_by_username corrupt_db ''erin'' = Some erin \<and>
   hashed_password erin = Some ''not-a-hash'' \<and>
   login demo_context default_settings 99 ''t2''
     \<lparr>login_username = ''erin'', login_password = ''pw123''\<rparr> corrupt_db
     = (Inl UnknownHashError, corrupt_db) \<and>
   UnknownHashError \<noteq> InvalidCredentials"
  by (simp add: login_def demo_eval corrupt_db_def erin_def InvalidCredentials_def)

text \<open>
  Claim C9, amended. \<^verbatim>\<open>verify_password\<close> returns what the context's \<^verbatim>\<open>verify\<close> returns and
  raises what it raises. In \<^verbatim>\<open>login\<close>, against a stored non-empty hash, an exception of
  \<^verbatim>\<open>verify\<close> is the outcome of the login, and the result false is \<open>InvalidCredentials\<close>; a
  stored hash that is absent or empty is \<open>InvalidCredentials\<close> without a call of \<^verbatim>\<open>verify\<close>.
  The store is unchanged in each case.
\<close>

theorem verify_password_propagates:
  "verify_password pwd_context plain hashed = ctx_verify pwd_context plain hashed \<and>
   (\<forall>u h e. get_user_doc_by_username db (login_username body) = Some u \<and>
        hashed_password u = Some h \<and> h \<noteq> [] \<and>
        ctx_verify pwd_context (login_password body) h = Inl e \<longrightarrow>
      login pwd_context settings now uuid4_hex body db = (Inl e, db)) \<and>
   (\<forall>u h. get_user_doc_by_username db (login_username body) = Some u \<and>
        hashed_password u = Some h \<and> h \<noteq> [] \<and>
        ctx_verify pwd_context (login_password body) h = Inr False \<longrightarrow>
      login pwd_context settings now uuid4_hex body db = (Inl InvalidCredentials, db)) \<and>
   (\<forall>u. get_user_doc_by_username db (login_username body) = Some u \<and>
        (hashed_password u = None \<or> hashed_password u = Some []) \<longrightarrow>
      login pwd_context settings now uuid4_hex body db = (Inl InvalidCredentials, db))"
  by (auto simp: login_found verify_password_def)

theorem verify_password_propagates_witness:
  "get_user_doc_by_username corrupt_db ''erin'' = Some erin \<and>
   hashed_password erin = Some ''not-a-hash'' \<and>
   ctx_verify demo_context ''pw123'' ''not-a-hash'' = Inl UnknownHashError \<and>
   login demo_context default_settings 99 ''t2''
     \<lparr>login_username = ''erin'', login_password = ''pw123''\<rparr> corrupt_db
     = (Inl UnknownHashError, corrupt_db) \<and>
   get_user_doc_by_username demo_db ''bob'' = Some bob \<and>
   hashed_password bob = Some ''$bcrypt-sha256$hunter2'' \<and>
   ctx_verify demo_context ''wrong'' ''$bcrypt-sha256$hunter2'' = Inr False \<and>
   login demo_context default_settings 99 ''t2''
     \<lparr>login_username = ''bob'', login_password = ''wrong''\<rparr> demo_db
     = (Inl InvalidCredentials, demo_db)"
proof -
  have e: "get_user_doc_by_username corrupt_db
      (login_username \<lparr>login_username = ''erin'', login_password = ''pw123''\<rparr>) = Some erin"
    by (simp add: demo_eval corrupt_db_def erin_def)
  have eh: "hashed_password erin = Some ''not-a-hash''" "''not-a-hash'' \<noteq> []"
    by (simp_all add: erin_def)
  have ev: "ctx_verify demo_context
      (login_password \<lparr>login_username = ''erin'', login_password = ''pw123''\<rparr>) ''not-a-hash''
      = Inl UnknownHashError"
    by (simp add: demo_eval)
  have b: "get_user_doc_by_username demo_db
      (login_username \<lparr>login_username = ''bob'', login_password = ''wrong''\<rparr>) = Some bob"
    by (simp add: demo_eval demo_data)
  have bh: "hashed_password bob = Some ''$bcrypt-sha256$hunter2''" "''$bcrypt-sha256$hunter2'' \<noteq> []"
    by (simp_all add: bob_def)
  have bv: "ctx_verify demo_context
      (login_password \<lparr>login_username = ''bob'', login_password = ''wrong''\<rparr>)
      ''$bcrypt-sha256$hunter2'' = Inr False"
    by (simp add: demo_eval)
  note te = verify_password_propagates [of demo_context "''x''" "''y''" corrupt_db
      "\<lparr>login_username = ''erin'', login_password = ''pw123''\<rparr>" default_settings 99 "''t2''"]
  note tb = verify_password_propagates [of demo_context "''x''" "''y''" demo_db
      "\<lparr>login_username = ''bob'', login_password = ''wrong''\<rparr>" default_settings 99 "''t2''"]
  have r1: "login demo_context default_settings 99 ''t2''
     \<lparr>login_username = ''erin'', login_password = ''pw123''\<rparr> corrupt_db
     = (Inl UnknownHashError, corrupt_db)"
    using te e eh ev by blast
  have r2: "login demo_context default_settings 99 ''t2''
     \<lparr>login_username = ''bob'', login_password = ''wrong''\<rparr> demo_db
     = (Inl InvalidCredentials, demo_db)"
    using tb b bh bv by blast
  show ?thesis
    using e eh ev b bh bv r1 r2 by simp
qed

section \<open>Protected access\<close>

text \<open>
  Claim C2. Protected access with the token \<open>t\<close> checks in this order: no record holds
  \<open>t\<close>, \<open>InvalidSession\<close>; the record is not logged in, \<open>SessionInactive\<close>; the record is
  disabled, \<open>UserDisabled\<close>; otherwise the public view of the user with
  \<^verbatim>\<open>logged_in = True\<close>. A disabled record therefore never passes, logged in or not. The
  stored \<^verbatim>\<open>session_expires_at\<close> is not read: replacing it in every record by any value
  leaves the outcome of every request as it was.
\<close>

theorem require_session_outcome:
  "(t \<noteq> [] \<longrightarrow>
      require_session (Some (''Session '' @ t)) db =
        (case get_user_doc_by_token db t of
           None \<Rightarrow> Inl InvalidSession
         | Some u \<Rightarrow>
             if \<not> logged_in u then Inl SessionInactive
             else if disabled u then Inl UserDisabled
             else Inr \<lparr>out_id = doc_id u, out_username = username u,
                       out_full_name = full_name u, out_logged_in = True\<rparr>)) \<and>
   (\<forall>u. get_user_doc_by_token db t = Some u \<and> disabled u \<longrightarrow>
      require_session (Some (''Session '' @ t)) db =
        Inl (if logged_in u then UserDisabled else SessionInactive)) \<and>
   require_session authorization (map (\<lambda>d. d\<lparr>session_expires_at := e d\<rparr>) db)
     = require_session authorization db"
proof (intro conjI allI impI)
  assume "t \<noteq> []"
  then show "require_session (Some (''Session '' @ t)) db =
        (case get_user_doc_by_token db t of
           None \<Rightarrow> Inl InvalidSession
         | Some u \<Rightarrow>
             if \<not> logged_in u then Inl SessionInactive
             else if disabled u then Inl UserDisabled
             else Inr \<lparr>out_id = doc_id u, out_username = username u,
                       out_full_name = full_name u, out_logged_in = True\<rparr>)"
    unfolding require_session_Session by simp
next
  fix u
  assume a: "get_user_doc_by_token db t = Some u \<and> disabled u"
  then have "t \<noteq> []" using by_token_Some by blast
  with a show "require_session (Some (''Session '' @ t)) db =
        Inl (if logged_in u then UserDisabled else SessionInactive)"
    unfolding require_session_Session by simp
next
  show "require_session authorization (map (\<lambda>d. d\<lparr>session_expires_at := e d\<rparr>) db)
     = require_session authorization db"
    by (rule require_session_expiry)
qed

theorem require_session_outcome_witness:
  "''t1'' \<noteq> [] \<and>
   get_user_doc_by_token demo_db ''t1'' = Some alice \<and>
   require_session (Some ''Session t1'') demo_db =
     Inr \<lparr>out_id = 1, out_username = ''alice'', out_full_name = None, out_logged_in = True\<rparr> \<and>
   get_user_doc_by_token demo_db ''t9'' = Some dave \<and> disabled dave \<and> logged_in dave \<and>
   require_session (Some ''Session t9'') demo_db = Inl UserDisabled \<and>
   get_user_doc_by_token demo_db ''nobody'' = None \<and>
   require_session (Some ''Session nobody'') demo_db = Inl InvalidSession \<and>
   require_session (Some ''Session t1'') (map (\<lambda>d. d\<lparr>session_expires_at := Some 0\<rparr>) demo_db)
     = require_session (Some ''Session t1'') demo_db"
proof -
  have a: "get_user_doc_by_token demo_db ''t1'' = Some alice"
    by (simp add: demo_eval demo_data)
  have d: "get_user_doc_by_token demo_db ''t9'' = Some dave"
    by (simp add: demo_eval demo_data)
  have n: "get_user_doc_by_token demo_db ''nobody'' = None"
    by (simp add: demo_eval demo_data)
  have la: "logged_in alice" "\<not> disabled alice" "doc_id alice = 1" "username alice = ''alice''"
    "full_name alice = None"
    by (simp_all add: alice_def)
  have ld: "logged_in dave" "disabled dave"
    by (simp_all add: dave_def)
  have h: "''Session '' @ ''t1'' = ''Session t1''" "''Session '' @ ''t9'' = ''Session t9''"
    "''Session '' @ ''nobody'' = ''Session nobody''"
    by simp_all
  note th1 = require_session_outcome [of "''t1''" demo_db "Some ''Session t1''" "\<lambda>d. Some 0"]
  note th9 = require_session_outcome [of "''t9''" demo_db None "\<lambda>d. None"]
  note thn = require_session_outcome [of "''nobody''" demo_db None "\<lambda>d. None"]
  have r1: "require_session (Some ''Session t1'') demo_db =
     Inr \<lparr>out_id = 1, out_username = ''alice'', out_full_name = None, out_logged_in = True\<rparr>"
    using th1 a la unfolding h by simp
  have r9: "require_session (Some ''Session t9'') demo_db = Inl UserDisabled"
    using th9 d ld unfolding h by simp
  have rn: "require_session (Some ''Session nobody'') demo_db = Inl InvalidSession"
    using thn n unfolding h by simp
  have re: "require_session (Some ''Session t1'') (map (\<lambda>d. d\<lparr>session_expires_at := Some 0\<rparr>) demo_db)
     = require_session (Some ''Session t1'') demo_db"
    using th1 by blast
  show ?thesis
    using a d n ld r1 r9 rn re by simp
qed

section \<open>The credential header\<close>

text \<open>
  Claim C10. Both \<^verbatim>\<open>signout\<close> and \<^verbatim>\<open>require_session\<close> split the header at its first space.
  The comparison of the lowered scheme with \<^verbatim>\<open>session\<close> holds exactly for the spellings of
  that word in upper and lower case. A header with a space is accepted exactly when the
  part before the first space is such a spelling and the part after it is not empty; the
  lookup then uses the whole part after the first space as the token, further spaces
  included. A header without a space is refused, as missing when it is empty.
\<close>

theorem credential_header_shape:
  "(str_lower scheme = ''session'' \<longleftrightarrow> session_spelling scheme) \<and>
   (CHR '' '' \<notin> set scheme \<longrightarrow>
      require_session (Some (scheme @ CHR '' '' # token)) db =
        (if session_spelling scheme \<and> token \<noteq> [] then
           (case get_user_doc_by_token db token of
              None \<Rightarrow> Inl InvalidSession
            | Some u \<Rightarrow>
                if \<not> logged_in u then Inl SessionInactive
                else if disabled u then Inl UserDisabled
                else Inr \<lparr>out_id = doc_id u, out_username = username u,
                          out_full_name = full_name u, out_logged_in = True\<rparr>)
         else Inl (HTTPException 401 ''Invalid authorization header'')) \<and>
      signout (Some (scheme @ CHR '' '' # token)) db =
        (if session_spelling scheme \<and> token \<noteq> [] then
           (case get_user_doc_by_token db token of
              None \<Rightarrow> (Inl InvalidSession, db)
            | Some u \<Rightarrow>
                (Inr ''Signed out'',
                 update_one (\<lambda>d. doc_id d = doc_id u)
                   (\<lambda>d. d\<lparr>logged_in := False, session_token := None,
                           session_expires_at := None\<rparr>) db))
         else (Inl (HTTPException 401
                 ''Invalid authorization header (expected 'Session <token>')''), db))) \<and>
   (CHR '' '' \<notin> set a \<longrightarrow>
      require_session (Some a) db =
        Inl (HTTPException 401
               (if a = [] then ''Missing Authorization header''
                else ''Invalid authorization header'')) \<and>
      signout (Some a) db =
        (Inl (HTTPException 401
               (if a = [] then ''Missing Authorization header''
                else ''Invalid authorization header (expected 'Session <token>')'')), db))"
proof (intro conjI impI)
  show "str_lower scheme = ''session'' \<longleftrightarrow> session_spelling scheme"
    by (rule str_lower_session)
next
  assume sp: "CHR '' '' \<notin> set scheme"
  show "require_session (Some (scheme @ CHR '' '' # token)) db =
        (if session_spelling scheme \<and> token \<noteq> [] then
           (case get_user_doc_by_token db token of
              None \<Rightarrow> Inl InvalidSession
            | Some u \<Rightarrow>
                if \<not> logged_in u then Inl SessionInactive
                else if disabled u then Inl UserDisabled
                else Inr \<lparr>out_id = doc_id u, out_username = username u,
                          out_full_name = full_name u, out_logged_in = True\<rparr>)
         else Inl (HTTPException 401 ''Invalid authorization header''))"
    unfolding require_session_def
    by (simp add: partition_str_split [OF sp] str_lower_session InvalidSession_def
          SessionInactive_def UserDisabled_def split: option.splits)
next
  assume sp: "CHR '' '' \<notin> set scheme"
  show "signout (Some (scheme @ CHR '' '' # token)) db =
        (if session_spelling scheme \<and> token \<noteq> [] then
           (case get_user_doc_by_token db token of
              None \<Rightarrow> (Inl InvalidSession, db)
            | Some u \<Rightarrow>
                (Inr ''Signed out'',
                 update_one (\<lambda>d. doc_id d = doc_id u)
                   (\<lambda>d. d\<lparr>logged_in := False, session_token := None,
                           session_expires_at := None\<rparr>) db))
         else (Inl (HTTPException 401
                 ''Invalid authorization header (expected 'Session <token>')''), db))"
    unfolding signout_def
    by (simp add: partition_str_split [OF sp] str_lower_session InvalidSession_def
          split: option.splits)
next
  assume sp: "CHR '' '' \<notin> set a"
  show "require_session (Some a) db =
        Inl (HTTPException 401
               (if a = [] then ''Missing Authorization header''
                else ''Invalid authorization header''))"
    unfolding require_session_def
    by (simp add: partition_str_no_space [OF sp])
next
  assume sp: "CHR '' '' \<notin> set a"
  show "signout (Some a) db =
        (Inl (HTTPException 401
               (if a = [] then ''Missing Authorization header''
                else ''Invalid authorization header (expected 'Session <token>')'')), db)"
    unfolding signout_def
    by (simp add: partition_str_no_space [OF sp])
qed

theorem credential_header_shape_witness:
  "CHR '' '' \<notin> set ''SESSION'' \<and> session_spelling ''SESSION'' \<and>
   require_session (Some ''SESSION t1'') demo_db =
     Inr \<lparr>out_id = 1, out_username = ''alice'', out_full_name = None, out_logged_in = True\<rparr> \<and>
   fst (signout (Some ''session t1'') demo_db) = Inr ''Signed out'' \<and>
   get_user_doc_by_token demo_db ''t1 t9'' = None \<and>
   require_session (Some ''sEsSiOn t1 t9'') demo_db = Inl InvalidSession \<and>
   \<not> session_spelling ''Bearer'' \<and>
   require_session (Some ''Bearer t1'') demo_db =
     Inl (HTTPException 401 ''Invalid authorization header'') \<and>
   require_session (Some ''Session '') demo_db =
     Inl (HTTPException 401 ''Invalid authorization header'') \<and>
   CHR '' '' \<notin> set ''Session'' \<and>
   signout (Some ''Session'') demo_db =
     (Inl (HTTPException 401 ''Invalid authorization header (expected 'Session <token>')''),
      demo_db)"
proof -
  have sp: "CHR '' '' \<notin> set ''SESSION''" "CHR '' '' \<notin> set ''session''"
    "CHR '' '' \<notin> set ''sEsSiOn''" "CHR '' '' \<notin> set ''Bearer''" "CHR '' '' \<notin> set ''Session''"
    by simp_all
  have ok: "session_spelling ''SESSION''" "session_spelling ''session''"
    "session_spelling ''sEsSiOn''" "session_spelling ''Session''"
    "\<not> session_spelling ''Bearer''"
    by (simp_all add: session_spelling_def)
  have a: "get_user_doc_by_token demo_db ''t1'' = Some alice"
    by (simp add: demo_eval demo_data)
  have n: "get_user_doc_by_token demo_db ''t1 t9'' = None"
    by (simp add: demo_eval demo_data)
  have la: "logged_in alice" "\<not> disabled alice" "doc_id alice = 1" "username alice = ''alice''"
    "full_name alice = None"
    by (simp_all add: alice_def)
  have h: "''SESSION'' @ CHR '' '' # ''t1'' = ''SESSION t1''"
    "''session'' @ CHR '' '' # ''t1'' = ''session t1''"
    "''sEsSiOn'' @ CHR '' '' # ''t1 t9'' = ''sEsSiOn t1 t9''"
    "''Bearer'' @ CHR '' '' # ''t1'' = ''Bearer t1''"
    "''Session'' @ CHR '' '' # [] = ''Session ''"
    by simp_all
  note t1 = credential_header_shape [of "''SESSION''" "''t1''" demo_db "''Session''"]
  note t2 = credential_header_shape [of "''session''" "''t1''" demo_db "''Session''"]
  note t3 = credential_header_shape [of "''sEsSiOn''" "''t1 t9''" demo_db "''Session''"]
  note t4 = credential_header_shape [of "''Bearer''" "''t1''" demo_db "''Session''"]
  note t5 = credential_header_shape [of "''Session''" "[]" demo_db "''Session''"]
  have r1: "require_session (Some ''SESSION t1'') demo_db =
     Inr \<lparr>out_id = 1, out_username = ''alice'', out_full_name = None, out_logged_in = True\<rparr>"
    using t1 sp(1) ok(1) a la unfolding h by simp
  have r2: "fst (signout (Some ''session t1'') demo_db) = Inr ''Signed out''"
    using t2 sp(2) ok(2) a unfolding h by simp
  have r3: "require_session (Some ''sEsSiOn t1 t9'') demo_db = Inl InvalidSession"
    using t3 sp(3) ok(3) n unfolding h by simp
  have r4: "require_session (Some ''Bearer t1'') demo_db =
     Inl (HTTPException 401 ''Invalid authorization header'')"
    using t4 sp(4) ok(5) unfolding h by simp
  have r5: "require_session (Some ''Session '') demo_db =
     Inl (HTTPException 401 ''Invalid authorization header'')"
    using t5 sp(5) unfolding h by simp
  have r6: "signout (Some ''Session'') demo_db =
     (Inl (HTTPException 401 ''Invalid authorization header (expected 'Session <token>')''),
      demo_db)"
    using t5 sp(5) by simp
  show ?thesis
    using sp ok n r1 r2 r3 r4 r5 r6 by simp
qed

end
